theory Spec2Isabelle
  imports Complex_Main "HOL-Library.Sublist"
begin

text \<open>
  The module \<open>index.tsx\<close> of the weather dashboard: one page that asks a generative backend
  for the weather of a city and for city-name suggestions, keeps a list of favourite
  cities in local storage and refreshes the shown city on a timer. Its functions are
  embedded as functions on one record of the module's variables and the page. The
  runtime has a single thread: each listener, each timer callback and each continuation
  of an \<open>await\<close> runs as one step, and the steps of different requests interleave.
\<close>

section \<open>Strings\<close>

text \<open>
  A JavaScript string is the list of its code units. \<^typ>\<open>char\<close> has eight bits, so the
  model covers the code units below 256 (Latin-1); on these \<open>toLowerCase\<close> and \<open>trim\<close>
  work unit by unit, as written below.
\<close>

definition js_whitespace :: "char \<Rightarrow> bool" where
  \<comment> \<open>TAB, LF, VT, FF, CR, SP and NBSP: the white space and line terminators below 256.\<close>
  "js_whitespace c = (of_char c \<in> {9, 10, 11, 12, 13, 32, 160 :: nat})"

definition trim :: "string \<Rightarrow> string" where
  "trim s = rev (dropWhile js_whitespace (rev (dropWhile js_whitespace s)))"

definition is_upper_unit :: "char \<Rightarrow> bool" where
  \<comment> \<open>A to Z, and the capital letters of Latin-1 (U+00C0 to U+00DE without the sign U+00D7).\<close>
  "is_upper_unit c =
     (let n = of_char c :: nat
      in (65 \<le> n \<and> n \<le> 90) \<or> (192 \<le> n \<and> n \<le> 222 \<and> n \<noteq> 215))"

definition lower_unit :: "char \<Rightarrow> char" where
  \<comment> \<open>The small letter is 32 above the capital one; bit 5 is clear in every capital unit,
      so adding 32 sets it.\<close>
  "lower_unit c =
     (if is_upper_unit c
      then (case c of Char b0 b1 b2 b3 b4 b5 b6 b7 \<Rightarrow> Char b0 b1 b2 b3 b4 True b6 b7)
      else c)"

definition toLowerCase :: "string \<Rightarrow> string" where
  "toLowerCase s = map lower_unit s"

fun js_includes :: "string \<Rightarrow> string \<Rightarrow> bool" where
  "js_includes [] pat = (pat = [])"
| "js_includes (c # cs) pat = (prefix pat (c # cs) \<or> js_includes cs pat)"

fun js_split :: "char \<Rightarrow> string \<Rightarrow> string list" where
  "js_split sep [] = [[]]"
| "js_split sep (c # cs) =
     (if c = sep then [] # js_split sep cs
      else (case js_split sep cs of
              p # ps \<Rightarrow> (c # p) # ps
            | [] \<Rightarrow> [[c]]))"

definition Math_round :: "real \<Rightarrow> int" where
  "Math_round x = \<lfloor>x + 1 / 2\<rfloor>"


section \<open>Values exchanged with the platform\<close>

datatype js_error = TransportError | SyntaxError | TypeError

text \<open>
  A text handed to \<open>JSON.parse\<close> is seen through what \<open>JSON.parse\<close> makes of it: it is
  either rejected (the raw text is kept) or parsed to a value. A backend call either
  rejects or resolves with such a text.
\<close>

datatype 'a js_text = Unparsable string | Parsable 'a

datatype 'a reply = Rejected | Resolved "'a js_text"

definition JSON_parse :: "'a js_text \<Rightarrow> js_error + 'a" where
  "JSON_parse t = (case t of Unparsable raw \<Rightarrow> Inl SyntaxError | Parsable v \<Rightarrow> Inr v)"

definition truthy :: "'a js_text \<Rightarrow> bool" where
  \<comment> \<open>A string is falsy exactly when it is empty; a text that parses is never empty.\<close>
  "truthy t = (case t of Unparsable raw \<Rightarrow> raw \<noteq> [] | Parsable v \<Rightarrow> True)"

record current_weather =
  temp :: real
  humidity :: real
  wind_speed :: real
  description :: string

record forecast_day =
  day :: string
  temp_high :: real
  temp_low :: real
  day_description :: string

text \<open>
  The parsed weather response has static type \<open>any\<close>. The model covers the value \<open>null\<close>
  and the values whose properties \<open>current\<close> and \<open>forecast\<close> are each either nullish
  (\<open>None\<close>) or shaped as the response schema says.
\<close>

datatype weather_json =
    JsonNull
  | JsonObject "current_weather option" "forecast_day list option"

fun get_current :: "weather_json \<Rightarrow> js_error + current_weather option" where
  "get_current JsonNull = Inl TypeError"
| "get_current (JsonObject c f) = Inr c"

fun get_forecast :: "weather_json \<Rightarrow> js_error + forecast_day list option" where
  "get_forecast JsonNull = Inl TypeError"
| "get_forecast (JsonObject c f) = Inr f"


section \<open>The page and the application state\<close>

datatype emoji =
    SunEmoji | CloudEmoji | RainEmoji | ThunderCloudEmoji | SnowflakeEmoji | FogEmoji
  | GlobeEmoji | ThermometerEmoji | ColdFaceEmoji | WindEmoji | LightningEmoji

record weather_icon =
  icon :: emoji
  animationClass :: string
  backgroundClass :: string

record alert_pill =
  pill_className :: string
  pill_icon :: emoji
  pill_text :: string

record forecast_card =
  card_day :: string
  card_icon :: emoji
  card_animation :: string
  card_high :: int
  card_low :: int

text \<open>
  One record holds the module's variables, the stored favourites, what the page shows
  and the requests that are in flight. The page's markup is not among the sources:
  every element the module looks up is taken to exist, so each null guard takes its
  branch for a present element. A section's \<open>hidden\<close> class and a button's classes are
  flags; a text is kept as the value it is formatted from. The console is not modelled.
\<close>

record app =
  favorites :: "string list"
  debounceTimer :: "string option"
  currentCity :: string
  localStorage :: "string \<rightharpoonup> string list js_text"
  pendingWeather :: "(string \<times> bool) list"
  pendingSuggestions :: "string list"
  cityInput_value :: string
  searchBtn_searching :: bool
  searchBtn_loading :: bool
  searchBtn_disabled :: bool
  loader_hidden :: bool
  errorMessageEl_hidden :: bool
  errorMessageEl_text :: string
  suggestionsBox_hidden :: bool
  suggestionsBox_items :: "string list"
  favoritesSection_hidden :: bool
  favoritesList :: "string list"
  addFavoriteBtn_filled :: bool
  currentWeatherSection_hidden :: bool
  cityNameEl :: string
  currentDateEl :: string
  weatherIconEl :: "emoji option"
  weatherIconEl_classes :: "string list"
  weatherCard_classes :: "string list"
  currentTempEl :: "int option"
  weatherDescriptionEl :: string
  humidityEl :: "real option"
  windSpeedEl :: "real option"
  weatherAlertsEl :: "alert_pill list"
  forecastSection_hidden :: bool
  forecastCards :: "forecast_card list"

text \<open>A statement that throws leaves the state as it was at the throw.\<close>

datatype 'a outcome = Returned 'a | Thrown js_error 'a

fun and_then :: "'a outcome \<Rightarrow> ('a \<Rightarrow> 'a outcome) \<Rightarrow> 'a outcome" where
  "and_then (Returned s) f = f s"
| "and_then (Thrown e s) f = Thrown e s"

definition FAVORITES_KEY :: string where
  "FAVORITES_KEY = ''weatherAppFavorites''"

definition ANIMATION_CLASSES :: "string list" where
  "ANIMATION_CLASSES =
     [''animate-sun'', ''animate-cloud'', ''animate-rain'', ''animate-storm'',
      ''animate-snow'', ''animate-mist'']"

definition BACKGROUND_CLASSES :: "string list" where
  "BACKGROUND_CLASSES =
     [''bg-sunny'', ''bg-cloudy'', ''bg-rainy'', ''bg-stormy'', ''bg-snowy'', ''bg-misty'',
      ''bg-default'']"

definition classList_remove :: "string list \<Rightarrow> string list \<Rightarrow> string list" where
  "classList_remove names classes = filter (\<lambda>c. c \<notin> set names) classes"

definition classList_add :: "string \<Rightarrow> string list \<Rightarrow> string list" where
  "classList_add name classes = (if name \<in> set classes then classes else classes @ [name])"


section \<open>Weather functions\<close>

definition getWeatherIcon :: "string \<Rightarrow> weather_icon" where
  "getWeatherIcon d =
     (let desc = toLowerCase d in
      if js_includes desc ''clear'' then
        \<lparr>icon = SunEmoji, animationClass = ''animate-sun'', backgroundClass = ''bg-sunny''\<rparr>
      else if js_includes desc ''cloud'' then
        \<lparr>icon = CloudEmoji, animationClass = ''animate-cloud'', backgroundClass = ''bg-cloudy''\<rparr>
      else if js_includes desc ''rain'' then
        \<lparr>icon = RainEmoji, animationClass = ''animate-rain'', backgroundClass = ''bg-rainy''\<rparr>
      else if js_includes desc ''storm'' \<or> js_includes desc ''thunder'' then
        \<lparr>icon = ThunderCloudEmoji, animationClass = ''animate-storm'',
         backgroundClass = ''bg-stormy''\<rparr>
      else if js_includes desc ''snow'' then
        \<lparr>icon = SnowflakeEmoji, animationClass = ''animate-snow'', backgroundClass = ''bg-snowy''\<rparr>
      else if js_includes desc ''mist'' \<or> js_includes desc ''fog'' then
        \<lparr>icon = FogEmoji, animationClass = ''animate-mist'', backgroundClass = ''bg-misty''\<rparr>
      else \<lparr>icon = GlobeEmoji, animationClass = [], backgroundClass = ''bg-default''\<rparr>)"


section \<open>UI state management\<close>

definition hideSuggestions :: "app \<Rightarrow> app" where
  "hideSuggestions s = s\<lparr>suggestionsBox_hidden := True, suggestionsBox_items := []\<rparr>"

definition showLoading :: "app \<Rightarrow> app" where
  "showLoading s =
     s\<lparr>loader_hidden := False, errorMessageEl_hidden := True, favoritesSection_hidden := True,
       currentWeatherSection_hidden := True, forecastSection_hidden := True\<rparr>"

definition showContent :: "app \<Rightarrow> app" where
  "showContent s =
     (let s1 = s\<lparr>loader_hidden := True, errorMessageEl_hidden := True\<rparr>;
          s2 = (if length (favorites s1) > 0 then s1\<lparr>favoritesSection_hidden := False\<rparr> else s1)
      in s2\<lparr>currentWeatherSection_hidden := False, forecastSection_hidden := False\<rparr>)"

definition showError :: "string \<Rightarrow> app \<Rightarrow> app" where
  "showError message s =
     s\<lparr>loader_hidden := True, errorMessageEl_hidden := False, favoritesSection_hidden := True,
       currentWeatherSection_hidden := True, forecastSection_hidden := True,
       errorMessageEl_text := message\<rparr>"


section \<open>Favorites functions\<close>

definition is_favorite :: "string list \<Rightarrow> string \<Rightarrow> bool" where
  \<comment> \<open>\<open>favorites.some(city => city.toLowerCase() === name.toLowerCase())\<close>\<close>
  "is_favorite favs name = list_ex (\<lambda>city. toLowerCase city = toLowerCase name) favs"

definition updateFavoriteButton :: "app \<Rightarrow> app" where
  "updateFavoriteButton s = s\<lparr>addFavoriteBtn_filled := is_favorite (favorites s) (currentCity s)\<rparr>"

definition renderFavorites :: "app \<Rightarrow> app" where
  "renderFavorites s =
     (let s1 = s\<lparr>favoritesList := []\<rparr> in
      if length (favorites s1) > 0
      then s1\<lparr>favoritesSection_hidden := False, favoritesList := favorites s1\<rparr>
      else s1\<lparr>favoritesSection_hidden := True\<rparr>)"

definition loadFavorites :: "app \<Rightarrow> app outcome" where
  "loadFavorites s =
     (case localStorage s FAVORITES_KEY of
        None \<Rightarrow> Returned s
      | Some storedFavorites \<Rightarrow>
          if truthy storedFavorites
          then (case JSON_parse storedFavorites of
                  Inl e \<Rightarrow> Thrown e s
                | Inr v \<Rightarrow> Returned (s\<lparr>favorites := v\<rparr>))
          else Returned s)"

definition saveFavorites :: "app \<Rightarrow> app" where
  \<comment> \<open>The stored text is the one that parses back to the list; the write is taken to succeed.\<close>
  "saveFavorites s = s\<lparr>localStorage := (localStorage s)(FAVORITES_KEY \<mapsto> Parsable (favorites s))\<rparr>"

definition addFavorite :: "string \<Rightarrow> app \<Rightarrow> app" where
  "addFavorite cityToAdd s =
     (if \<not> is_favorite (favorites s) cityToAdd
      then updateFavoriteButton (renderFavorites (saveFavorites
             (s\<lparr>favorites := favorites s @ [cityToAdd]\<rparr>)))
      else s)"

definition removeFavorite :: "bool \<Rightarrow> string \<Rightarrow> app \<Rightarrow> app" where
  \<comment> \<open>The first argument is the user's answer to the confirmation dialog.\<close>
  "removeFavorite confirmed cityToRemove s =
     (if confirmed
      then updateFavoriteButton (renderFavorites (saveFavorites
             (s\<lparr>favorites :=
                  filter (\<lambda>city. toLowerCase city \<noteq> toLowerCase cityToRemove) (favorites s)\<rparr>)))
      else s)"


section \<open>Alerts and UI update functions\<close>

definition createAlertPill :: "string \<Rightarrow> emoji \<Rightarrow> string \<Rightarrow> alert_pill" where
  "createAlertPill text icn className =
     \<lparr>pill_className = ''alert-pill '' @ className, pill_icon = icn, pill_text = text\<rparr>"

definition appendAlert :: "alert_pill \<Rightarrow> app \<Rightarrow> app" where
  "appendAlert pill s = s\<lparr>weatherAlertsEl := weatherAlertsEl s @ [pill]\<rparr>"

definition displayWeatherAlerts :: "current_weather \<Rightarrow> app \<Rightarrow> app" where
  "displayWeatherAlerts current s =
     (let s0 = s\<lparr>weatherAlertsEl := []\<rparr>;
          s1 = (if temp current > 30
                then appendAlert (createAlertPill ''Extreme Heat'' ThermometerEmoji ''alert-hot'') s0
                else if temp current < 5
                then appendAlert (createAlertPill ''Cold Weather'' ColdFaceEmoji ''alert-cold'') s0
                else s0);
          s2 = (if wind_speed current > 30
                then appendAlert (createAlertPill ''High Wind'' WindEmoji ''alert-wind'') s1
                else s1);
          desc = toLowerCase (description current)
      in if js_includes desc ''storm'' \<or> js_includes desc ''thunder''
         then appendAlert (createAlertPill ''Storm Alert'' LightningEmoji ''alert-storm'') s2
         else s2)"

definition displayCurrentWeather :: "string \<Rightarrow> string \<Rightarrow> current_weather option \<Rightarrow> app \<Rightarrow> app outcome" where
  \<comment> \<open>\<open>today\<close> is the date the clock gives, formatted, when the function runs.\<close>
  "displayCurrentWeather city today current s =
     (let s1 = s\<lparr>cityNameEl := city, currentDateEl := today\<rparr> in
      case current of
        None \<Rightarrow> Thrown TypeError s1
      | Some c \<Rightarrow>
          let w = getWeatherIcon (description c);
              s2 = s1\<lparr>weatherIconEl := Some (icon w),
                      weatherIconEl_classes :=
                        classList_remove ANIMATION_CLASSES (weatherIconEl_classes s1)\<rparr>;
              s3 = (if animationClass w \<noteq> []
                    then s2\<lparr>weatherIconEl_classes :=
                              classList_add (animationClass w) (weatherIconEl_classes s2)\<rparr>
                    else s2);
              s4 = s3\<lparr>weatherCard_classes :=
                        classList_add (backgroundClass w)
                          (classList_remove BACKGROUND_CLASSES (weatherCard_classes s3))\<rparr>;
              s5 = s4\<lparr>currentTempEl := Some (Math_round (temp c)),
                      weatherDescriptionEl := description c,
                      humidityEl := Some (humidity c),
                      windSpeedEl := Some (wind_speed c)\<rparr>
          in Returned (displayWeatherAlerts c s5))"

definition forecastCard :: "forecast_day \<Rightarrow> forecast_card" where
  "forecastCard d =
     (let w = getWeatherIcon (day_description d) in
      \<lparr>card_day = day d, card_icon = icon w, card_animation = animationClass w,
       card_high = Math_round (temp_high d), card_low = Math_round (temp_low d)\<rparr>)"

definition displayForecast :: "forecast_day list option \<Rightarrow> app \<Rightarrow> app outcome" where
  "displayForecast forecast s =
     (let s1 = s\<lparr>forecastCards := []\<rparr> in
      case forecast of
        None \<Rightarrow> Thrown TypeError s1
      | Some days \<Rightarrow> Returned (s1\<lparr>forecastCards := map forecastCard (take 5 days)\<rparr>))"

definition displaySuggestions :: "string list \<Rightarrow> app \<Rightarrow> app" where
  "displaySuggestions suggestions s =
     (let s1 = s\<lparr>suggestionsBox_items := []\<rparr> in
      if length suggestions = 0 then hideSuggestions s1
      else s1\<lparr>suggestionsBox_items := suggestions, suggestionsBox_hidden := False\<rparr>)"


section \<open>Requests to the backend\<close>

text \<open>
  An \<open>async\<close> function runs up to its \<open>await\<close> when it is called and the rest when the
  awaited call settles; other handlers run in between. The first part ends by recording
  the request with what its continuation closes over; the second part is the continuation.
\<close>

definition fetchWeather :: "string \<Rightarrow> bool \<Rightarrow> app \<Rightarrow> app" where
  "fetchWeather city isAutoRefresh s =
     (let s1 = (if \<not> isAutoRefresh
                then (showLoading (hideSuggestions s))
                       \<lparr>searchBtn_searching := True, searchBtn_disabled := True\<rparr>
                else s)
      in s1\<lparr>pendingWeather := pendingWeather s1 @ [(city, isAutoRefresh)]\<rparr>)"

definition displayCity :: "string \<Rightarrow> string option" where
  \<comment> \<open>\<open>city.split(',')[0].trim()\<close>; an index beyond the array gives \<open>undefined\<close>.\<close>
  "displayCity city = (case js_split (CHR '','') city of [] \<Rightarrow> None | p # ps \<Rightarrow> Some (trim p))"

definition fetchWeather_try :: "string \<Rightarrow> bool \<Rightarrow> weather_json reply \<Rightarrow> string \<Rightarrow> app \<Rightarrow> app outcome" where
  "fetchWeather_try city isAutoRefresh response today s =
     (case response of
        Rejected \<Rightarrow> Thrown TransportError s
      | Resolved text \<Rightarrow>
          (case JSON_parse text of
             Inl e \<Rightarrow> Thrown e s
           | Inr weatherData \<Rightarrow>
               let s1 = updateFavoriteButton (s\<lparr>currentCity := city\<rparr>) in
               (case displayCity city of
                  None \<Rightarrow> Thrown TypeError s1
                | Some shown \<Rightarrow>
                    (case get_current weatherData of
                       Inl e \<Rightarrow> Thrown e s1
                     | Inr current \<Rightarrow>
                         and_then (displayCurrentWeather shown today current s1) (\<lambda>s2.
                           (case get_forecast weatherData of
                              Inl e \<Rightarrow> Thrown e s2
                            | Inr forecast \<Rightarrow>
                                and_then (displayForecast forecast s2) (\<lambda>s3.
                                  Returned (if \<not> isAutoRefresh then showContent s3 else s3))))))))"

definition fetchWeather_settled :: "string \<Rightarrow> bool \<Rightarrow> weather_json reply \<Rightarrow> string \<Rightarrow> app \<Rightarrow> app" where
  "fetchWeather_settled city isAutoRefresh response today s =
     (let caught =
            (case fetchWeather_try city isAutoRefresh response today s of
               Returned s1 \<Rightarrow> s1
             | Thrown e s1 \<Rightarrow>
                 if \<not> isAutoRefresh
                 then showError ''Could not retrieve weather data. Please try another city.'' s1
                 else s1)
      in if \<not> isAutoRefresh
         then caught\<lparr>searchBtn_searching := False, searchBtn_disabled := False\<rparr>
         else caught)"

definition fetchCitySuggestions :: "string \<Rightarrow> app \<Rightarrow> app" where
  "fetchCitySuggestions query s =
     (if length query < 3
      then (hideSuggestions s)\<lparr>searchBtn_loading := False\<rparr>
      else s\<lparr>searchBtn_loading := True, pendingSuggestions := pendingSuggestions s @ [query]\<rparr>)"

definition fetchCitySuggestions_settled :: "string list reply \<Rightarrow> app \<Rightarrow> app" where
  "fetchCitySuggestions_settled response s =
     (let caught =
            (case response of
               Rejected \<Rightarrow> hideSuggestions s
             | Resolved text \<Rightarrow>
                 (case JSON_parse text of
                    Inl e \<Rightarrow> hideSuggestions s
                  | Inr suggestions \<Rightarrow> displaySuggestions suggestions s))
      in caught\<lparr>searchBtn_loading := False\<rparr>)"


section \<open>Event listeners and timers\<close>

definition searchBtn_click :: "app \<Rightarrow> app" where
  \<comment> \<open>A disabled button receives no click, from the pointer or from \<open>click()\<close>.\<close>
  "searchBtn_click s =
     (if searchBtn_disabled s then s
      else (let city = trim (cityInput_value s)
            in if city \<noteq> [] then fetchWeather city False s else s))"

definition cityInput_keyup :: "string \<Rightarrow> app \<Rightarrow> app" where
  "cityInput_keyup key s = (if key = ''Enter'' then searchBtn_click s else s)"

definition cityInput_input :: "string \<Rightarrow> app \<Rightarrow> app" where
  \<comment> \<open>The user has changed the field to \<open>v\<close>: the armed timeout is cleared and a new one is
      armed, closing over the trimmed value.\<close>
  "cityInput_input v s = s\<lparr>cityInput_value := v, debounceTimer := Some (trim v)\<rparr>"

definition debounce_timeout :: "app \<Rightarrow> app" where
  "debounce_timeout s =
     (case debounceTimer s of
        None \<Rightarrow> s
      | Some query \<Rightarrow> fetchCitySuggestions query (s\<lparr>debounceTimer := None\<rparr>))"

definition suggestionItem_click :: "string \<Rightarrow> app \<Rightarrow> app" where
  "suggestionItem_click city s =
     (if \<not> suggestionsBox_hidden s \<and> city \<in> set (suggestionsBox_items s)
      then fetchWeather city False (s\<lparr>cityInput_value := city\<rparr>)
      else s)"

definition favoriteCity_click :: "string \<Rightarrow> app \<Rightarrow> app" where
  "favoriteCity_click city s =
     (if \<not> favoritesSection_hidden s \<and> city \<in> set (favoritesList s)
      then fetchWeather city False s
      else s)"

definition addFavoriteBtn_click :: "bool \<Rightarrow> app \<Rightarrow> app" where
  "addFavoriteBtn_click confirmed s =
     (if is_favorite (favorites s) (currentCity s)
      then removeFavorite confirmed (currentCity s) s
      else addFavorite (currentCity s) s)"

definition window_load :: "app \<Rightarrow> app" where
  \<comment> \<open>An exception that leaves a listener ends it; the state stays as it was at the throw.\<close>
  "window_load s =
     (case loadFavorites s of
        Thrown e s1 \<Rightarrow> s1
      | Returned s1 \<Rightarrow>
          let s2 = renderFavorites s1;
              initialCity = (case favorites s2 of [] \<Rightarrow> ''London'' | c # cs \<Rightarrow> c)
          in fetchWeather initialCity False (s2\<lparr>currentCity := initialCity\<rparr>))"

definition refresh_interval :: "app \<Rightarrow> app" where
  "refresh_interval s = (if currentCity s \<noteq> [] then fetchWeather (currentCity s) True s else s)"

definition weather_response :: "nat \<Rightarrow> weather_json reply \<Rightarrow> string \<Rightarrow> app \<Rightarrow> app" where
  \<comment> \<open>The \<open>i\<close>-th weather request in flight settles.\<close>
  "weather_response i response today s =
     (if i < length (pendingWeather s)
      then (case pendingWeather s ! i of
              (city, isAutoRefresh) \<Rightarrow>
                fetchWeather_settled city isAutoRefresh response today
                  (s\<lparr>pendingWeather := take i (pendingWeather s) @ drop (Suc i) (pendingWeather s)\<rparr>))
      else s)"

definition suggestions_response :: "nat \<Rightarrow> string list reply \<Rightarrow> app \<Rightarrow> app" where
  \<comment> \<open>The \<open>i\<close>-th suggestion request in flight settles.\<close>
  "suggestions_response i response s =
     (if i < length (pendingSuggestions s)
      then fetchCitySuggestions_settled response
             (s\<lparr>pendingSuggestions :=
                  take i (pendingSuggestions s) @ drop (Suc i) (pendingSuggestions s)\<rparr>)
      else s)"

datatype event =
    WindowLoad
  | Input string
  | DebounceTimeout
  | SuggestionsResponse nat "string list reply"
  | SuggestionClick string
  | SearchClick
  | KeyUp string
  | FavoriteClick string
  | AddFavoriteClick bool
  | ClickOutside
  | RefreshInterval
  | WeatherResponse nat "weather_json reply" string

fun handle :: "app \<Rightarrow> event \<Rightarrow> app" where
  "handle s WindowLoad = window_load s"
| "handle s (Input v) = cityInput_input v s"
| "handle s DebounceTimeout = debounce_timeout s"
| "handle s (SuggestionsResponse i r) = suggestions_response i r s"
| "handle s (SuggestionClick city) = suggestionItem_click city s"
| "handle s SearchClick = searchBtn_click s"
| "handle s (KeyUp key) = cityInput_keyup key s"
| "handle s (FavoriteClick city) = favoriteCity_click city s"
| "handle s (AddFavoriteClick confirmed) = addFavoriteBtn_click confirmed s"
| "handle s ClickOutside = hideSuggestions s"
| "handle s RefreshInterval = refresh_interval s"
| "handle s (WeatherResponse i r today) = weather_response i r today s"

definition run :: "app \<Rightarrow> event list \<Rightarrow> app" where
  "run s evs = foldl handle s evs"

definition opened_page :: "(string \<rightharpoonup> string list js_text) \<Rightarrow> app" where
  \<comment> \<open>The module just evaluated, over the given storage: nothing rendered yet, the texts
      empty, every section taken as hidden.\<close>
  "opened_page stored =
     \<lparr>favorites = [], debounceTimer = None, currentCity = ''London'', localStorage = stored,
      pendingWeather = [], pendingSuggestions = [], cityInput_value = [],
      searchBtn_searching = False, searchBtn_loading = False, searchBtn_disabled = False,
      loader_hidden = True, errorMessageEl_hidden = True, errorMessageEl_text = [],
      suggestionsBox_hidden = True, suggestionsBox_items = [],
      favoritesSection_hidden = True, favoritesList = [], addFavoriteBtn_filled = False,
      currentWeatherSection_hidden = True, cityNameEl = [], currentDateEl = [],
      weatherIconEl = None, weatherIconEl_classes = [], weatherCard_classes = [],
      currentTempEl = None, weatherDescriptionEl = [], humidityEl = None, windSpeedEl = None,
      weatherAlertsEl = [], forecastSection_hidden = True, forecastCards = []\<rparr>"


section \<open>What the statements observe\<close>

definition phase_flags :: "app \<Rightarrow> bool \<times> bool \<times> string \<times> bool \<times> bool \<times> bool" where
  \<comment> \<open>The UI phase: which of loader, error message and content sections are visible.\<close>
  "phase_flags s =
     (loader_hidden s, errorMessageEl_hidden s, errorMessageEl_text s,
      favoritesSection_hidden s, currentWeatherSection_hidden s, forecastSection_hidden s)"

definition controls :: "app \<Rightarrow> bool \<times> bool \<times> bool" where
  "controls s = (searchBtn_searching s, searchBtn_disabled s, searchBtn_loading s)"


section \<open>Example sessions\<close>

definition tokyo_current :: current_weather where
  "tokyo_current = \<lparr>temp = 31, humidity = 70, wind_speed = 12, description = ''Clear sky''\<rparr>"

definition tokyo_forecast :: "forecast_day list" where
  "tokyo_forecast =
     [\<lparr>day = ''Tuesday'', temp_high = 33, temp_low = 24, day_description = ''Sunny and clear''\<rparr>]"

definition paris_current :: current_weather where
  "paris_current = \<lparr>temp = 18, humidity = 55, wind_speed = 9, description = ''Light rain''\<rparr>"

definition paris_forecast :: "forecast_day list" where
  "paris_forecast =
     [\<lparr>day = ''Tuesday'', temp_high = 19, temp_low = 11, day_description = ''Cloudy''\<rparr>]"

definition london_current :: current_weather where
  "london_current = \<lparr>temp = 14, humidity = 80, wind_speed = 20, description = ''Mist''\<rparr>"

definition london_forecast :: "forecast_day list" where
  "london_forecast =
     [\<lparr>day = ''Tuesday'', temp_high = 15, temp_low = 9, day_description = ''Light rain''\<rparr>]"

definition report :: "current_weather \<Rightarrow> forecast_day list \<Rightarrow> weather_json reply" where
  "report c f = Resolved (Parsable (JsonObject (Some c) (Some f)))"

definition two_favorites :: app where
  "two_favorites = (opened_page Map.empty)\<lparr>favorites := [''Paris'', ''Oslo'']\<rparr>"

definition tokyo_then_paris :: "event list" where
  \<comment> \<open>London is shown after the page has loaded. The user searches for Tokyo with the
      button; while that request is in flight, the user types, is offered Paris and
      clicks the suggestion.\<close>
  "tokyo_then_paris =
     [WindowLoad,
      WeatherResponse 0 (report london_current london_forecast) ''Sunday, November 1, 2026'',
      Input ''Tokyo'', SearchClick,
      Input ''Par'', DebounceTimeout,
      SuggestionsResponse 0 (Resolved (Parsable [''Paris, France''])),
      SuggestionClick ''Paris, France'']"

definition stored_london :: "string \<rightharpoonup> string list js_text" where
  "stored_london = [FAVORITES_KEY \<mapsto> Parsable [''London'']]"

definition london_favorite :: app where
  "london_favorite = (opened_page Map.empty)\<lparr>favorites := [''London'']\<rparr>"

definition refresh_then_paris :: "event list" where
  \<comment> \<open>London is shown after the page has loaded. The refresh timer fires; while that
      request is in flight, the user types, is offered Paris and clicks the suggestion, and
      the response for Paris arrives.\<close>
  "refresh_then_paris =
     [WindowLoad,
      WeatherResponse 0 (report london_current london_forecast) ''Sunday, November 1, 2026'',
      RefreshInterval,
      Input ''Par'', DebounceTimeout,
      SuggestionsResponse 0 (Resolved (Parsable [''Paris, France''])),
      SuggestionClick ''Paris, France'',
      WeatherResponse 1 (report paris_current paris_forecast) ''Sunday, November 1, 2026'']"

definition atlantis_search :: "event list" where
  \<comment> \<open>London is shown; the user types a city and presses the search button.\<close>
  "atlantis_search =
     [WindowLoad,
      WeatherResponse 0 (report london_current london_forecast) ''Sunday, November 1, 2026'',
      Input ''Atlantis'', SearchClick]"

definition typing_on :: "event list" where
  \<comment> \<open>The user types three letters and pauses, so that the timer fires and a suggestion
      request goes out; then the user types a fourth letter.\<close>
  "typing_on =
     [WindowLoad,
      WeatherResponse 0 (report london_current london_forecast) ''Sunday, November 1, 2026'',
      Input ''Lon'', DebounceTimeout, Input ''Lond'']"


section \<open>Facts about the string functions\<close>

lemma toLowerCase_append: "toLowerCase (a @ b) = toLowerCase a @ toLowerCase b"
  by (simp add: toLowerCase_def)

lemma js_includes_iff: "js_includes s pat \<longleftrightarrow> (\<exists>p r. s = p @ pat @ r)"
proof (induction s)
  case Nil
  then show ?case by auto
next
  case (Cons c cs)
  show ?case
  proof
    assume "js_includes (c # cs) pat"
    then consider "prefix pat (c # cs)" | "js_includes cs pat" by auto
    then show "\<exists>p r. c # cs = p @ pat @ r"
    proof cases
      case 1
      then obtain r where "c # cs = pat @ r" by (auto simp: prefix_def)
      then have "c # cs = [] @ pat @ r" by simp
      then show ?thesis by blast
    next
      case 2
      with Cons.IH obtain p r where "cs = p @ pat @ r" by blast
      then have "c # cs = (c # p) @ pat @ r" by simp
      then show ?thesis by blast
    qed
  next
    assume "\<exists>p r. c # cs = p @ pat @ r"
    then obtain p r where eq: "c # cs = p @ pat @ r" by blast
    show "js_includes (c # cs) pat"
    proof (cases p)
      case Nil
      with eq have "prefix pat (c # cs)" by (simp add: prefix_def)
      then show ?thesis by simp
    next
      case (Cons a p')
      with eq have "cs = p' @ pat @ r" by simp
      with Cons.IH have "js_includes cs pat" by blast
      then show ?thesis by simp
    qed
  qed
qed

lemma includes_lower_iff:
  "js_includes (toLowerCase d) w \<longleftrightarrow> (\<exists>p m r. d = p @ m @ r \<and> toLowerCase m = w)"
proof
  assume "js_includes (toLowerCase d) w"
  then obtain p' r' where "map lower_unit d = p' @ w @ r'"
    by (auto simp: js_includes_iff toLowerCase_def)
  then have "\<exists>p t. d = p @ t \<and> p' = map lower_unit p \<and> w @ r' = map lower_unit t"
    by (simp only: map_eq_append_conv)
  then obtain p t where d: "d = p @ t" and t: "map lower_unit t = w @ r'"
    by metis
  from t have "\<exists>m r. t = m @ r \<and> w = map lower_unit m \<and> r' = map lower_unit r"
    by (simp only: map_eq_append_conv)
  then obtain m r where "t = m @ r" and "map lower_unit m = w"
    by metis
  with d have "d = p @ m @ r \<and> toLowerCase m = w" by (simp add: toLowerCase_def)
  then show "\<exists>p m r. d = p @ m @ r \<and> toLowerCase m = w" by blast
next
  assume "\<exists>p m r. d = p @ m @ r \<and> toLowerCase m = w"
  then obtain p m r where "d = p @ m @ r" and "toLowerCase m = w" by blast
  then have "toLowerCase d = toLowerCase p @ w @ toLowerCase r"
    by (simp add: toLowerCase_append)
  then show "js_includes (toLowerCase d) w" by (auto simp: js_includes_iff)
qed

lemma js_split_first: "\<exists>ps. js_split sep s = takeWhile (\<lambda>c. c \<noteq> sep) s # ps"
  by (induction s) auto

lemma displayCity_eq: "displayCity city = Some (trim (takeWhile (\<lambda>c. c \<noteq> CHR '','') city))"
proof -
  obtain ps where "js_split (CHR '','') city = takeWhile (\<lambda>c. c \<noteq> CHR '','') city # ps"
    using js_split_first by blast
  then show ?thesis by (simp add: displayCity_def)
qed


section \<open>Alert thresholds\<close>

lemma displayWeatherAlerts_eq:
  "displayWeatherAlerts c s =
     s\<lparr>weatherAlertsEl :=
         (if temp c > 30 then [createAlertPill ''Extreme Heat'' ThermometerEmoji ''alert-hot'']
          else if temp c < 5 then [createAlertPill ''Cold Weather'' ColdFaceEmoji ''alert-cold'']
          else []) @
         (if wind_speed c > 30 then [createAlertPill ''High Wind'' WindEmoji ''alert-wind''] else []) @
         (if js_includes (toLowerCase (description c)) ''storm'' \<or>
             js_includes (toLowerCase (description c)) ''thunder''
          then [createAlertPill ''Storm Alert'' LightningEmoji ''alert-storm''] else [])\<rparr>"
  by (simp add: displayWeatherAlerts_def appendAlert_def Let_def)

lemma alerts_closed_form:
  "weatherAlertsEl (displayWeatherAlerts c s) =
     (if temp c > 30 then [createAlertPill ''Extreme Heat'' ThermometerEmoji ''alert-hot'']
      else if temp c < 5 then [createAlertPill ''Cold Weather'' ColdFaceEmoji ''alert-cold'']
      else []) @
     (if wind_speed c > 30 then [createAlertPill ''High Wind'' WindEmoji ''alert-wind''] else []) @
     (if js_includes (toLowerCase (description c)) ''storm'' \<or>
         js_includes (toLowerCase (description c)) ''thunder''
      then [createAlertPill ''Storm Alert'' LightningEmoji ''alert-storm''] else [])"
  by (simp add: displayWeatherAlerts_eq)

lemma pills_differ:
  "createAlertPill ''Extreme Heat'' ThermometerEmoji ''alert-hot'' \<noteq> createAlertPill ''Cold Weather'' ColdFaceEmoji ''alert-cold''"
  "createAlertPill ''Extreme Heat'' ThermometerEmoji ''alert-hot'' \<noteq> createAlertPill ''High Wind'' WindEmoji ''alert-wind''"
  "createAlertPill ''Extreme Heat'' ThermometerEmoji ''alert-hot'' \<noteq> createAlertPill ''Storm Alert'' LightningEmoji ''alert-storm''"
  "createAlertPill ''Cold Weather'' ColdFaceEmoji ''alert-cold'' \<noteq> createAlertPill ''High Wind'' WindEmoji ''alert-wind''"
  "createAlertPill ''Cold Weather'' ColdFaceEmoji ''alert-cold'' \<noteq> createAlertPill ''Storm Alert'' LightningEmoji ''alert-storm''"
  "createAlertPill ''High Wind'' WindEmoji ''alert-wind'' \<noteq> createAlertPill ''Storm Alert'' LightningEmoji ''alert-storm''"
  by (simp_all add: createAlertPill_def)

text \<open>
  Claim C6. For every current-weather record, whatever the alert box held before: the
  heat pill is shown exactly when the temperature is above 30, the cold pill exactly when
  it is below 5, never both; the wind pill exactly when the wind speed is above 30; the
  storm pill exactly when some part of the description reads \<open>storm\<close> or \<open>thunder\<close> once
  lower-cased. Each pill depends on its own field only.
\<close>

theorem alerts_follow_thresholds:
  "(let shown = set (weatherAlertsEl (displayWeatherAlerts c s)) in
     (createAlertPill ''Extreme Heat'' ThermometerEmoji ''alert-hot'' \<in> shown \<longleftrightarrow> temp c > 30) \<and>
     (createAlertPill ''Cold Weather'' ColdFaceEmoji ''alert-cold'' \<in> shown \<longleftrightarrow> temp c < 5) \<and>
     \<not> (createAlertPill ''Extreme Heat'' ThermometerEmoji ''alert-hot'' \<in> shown \<and>
        createAlertPill ''Cold Weather'' ColdFaceEmoji ''alert-cold'' \<in> shown) \<and>
     (createAlertPill ''High Wind'' WindEmoji ''alert-wind'' \<in> shown \<longleftrightarrow> wind_speed c > 30) \<and>
     (createAlertPill ''Storm Alert'' LightningEmoji ''alert-storm'' \<in> shown \<longleftrightarrow>
        (\<exists>p m r. description c = p @ m @ r \<and>
           (toLowerCase m = ''storm'' \<or> toLowerCase m = ''thunder''))))"
proof -
  have storm: "(js_includes (toLowerCase (description c)) ''storm'' \<or>
                js_includes (toLowerCase (description c)) ''thunder'') \<longleftrightarrow>
        (\<exists>p m r. description c = p @ m @ r \<and>
           (toLowerCase m = ''storm'' \<or> toLowerCase m = ''thunder''))"
    unfolding includes_lower_iff by blast
  show ?thesis
    unfolding Let_def alerts_closed_form storm [symmetric]
    using pills_differ by auto
qed

theorem alerts_follow_thresholds_witness:
  "createAlertPill ''Extreme Heat'' ThermometerEmoji ''alert-hot''
     \<in> set (weatherAlertsEl (displayWeatherAlerts
                \<lparr>temp = 31, humidity = 40, wind_speed = 30, description = ''Sunny''\<rparr> two_favorites)) \<and>
   createAlertPill ''Extreme Heat'' ThermometerEmoji ''alert-hot''
     \<notin> set (weatherAlertsEl (displayWeatherAlerts
                \<lparr>temp = 30, humidity = 40, wind_speed = 31, description = ''Sunny''\<rparr> two_favorites)) \<and>
   createAlertPill ''High Wind'' WindEmoji ''alert-wind''
     \<notin> set (weatherAlertsEl (displayWeatherAlerts
                \<lparr>temp = 31, humidity = 40, wind_speed = 30, description = ''Sunny''\<rparr> two_favorites)) \<and>
   createAlertPill ''High Wind'' WindEmoji ''alert-wind''
     \<in> set (weatherAlertsEl (displayWeatherAlerts
                \<lparr>temp = 30, humidity = 40, wind_speed = 31, description = ''Sunny''\<rparr> two_favorites))"
  using alerts_follow_thresholds
          [of "\<lparr>temp = 31, humidity = 40, wind_speed = 30, description = ''Sunny''\<rparr>" two_favorites]
        alerts_follow_thresholds
          [of "\<lparr>temp = 30, humidity = 40, wind_speed = 31, description = ''Sunny''\<rparr>" two_favorites]
  by (simp add: Let_def)


section \<open>Favourites\<close>

lemma is_favorite_iff:
  "is_favorite favs name \<longleftrightarrow> (\<exists>c \<in> set favs. toLowerCase c = toLowerCase name)"
  by (simp add: is_favorite_def list_ex_iff)

text \<open>
  Claim C7. When some entry of the favourites has the lower-case form of the city,
  \<open>addFavorite\<close> changes nothing at all; otherwise the city is appended at the end, the
  new list is stored and drawn. Adding the same city again, in any letter case, changes
  nothing more.
\<close>

theorem addFavorite_idempotent:
  "((\<exists>c \<in> set (favorites s). toLowerCase c = toLowerCase city) \<longrightarrow> addFavorite city s = s) \<and>
   (\<not> (\<exists>c \<in> set (favorites s). toLowerCase c = toLowerCase city) \<longrightarrow>
      favorites (addFavorite city s) = favorites s @ [city] \<and>
      localStorage (addFavorite city s) FAVORITES_KEY = Some (Parsable (favorites s @ [city])) \<and>
      favoritesList (addFavorite city s) = favorites s @ [city]) \<and>
   (toLowerCase again = toLowerCase city \<longrightarrow>
      addFavorite again (addFavorite city s) = addFavorite city s)"
proof (intro conjI impI)
  assume "\<exists>c \<in> set (favorites s). toLowerCase c = toLowerCase city"
  then show "addFavorite city s = s"
    by (simp add: addFavorite_def is_favorite_iff)
next
  assume new: "\<not> (\<exists>c \<in> set (favorites s). toLowerCase c = toLowerCase city)"
  then have nf: "\<not> is_favorite (favorites s) city" by (simp add: is_favorite_iff)
  show "favorites (addFavorite city s) = favorites s @ [city]"
    using nf by (simp add: addFavorite_def updateFavoriteButton_def renderFavorites_def
        saveFavorites_def Let_def)
  show "localStorage (addFavorite city s) FAVORITES_KEY = Some (Parsable (favorites s @ [city]))"
    using nf by (simp add: addFavorite_def updateFavoriteButton_def renderFavorites_def
        saveFavorites_def Let_def)
  show "favoritesList (addFavorite city s) = favorites s @ [city]"
    using nf by (simp add: addFavorite_def updateFavoriteButton_def renderFavorites_def
        saveFavorites_def Let_def)
next
  assume same: "toLowerCase again = toLowerCase city"
  have "is_favorite (favorites (addFavorite city s)) city"
    by (auto simp: addFavorite_def updateFavoriteButton_def renderFavorites_def
        saveFavorites_def Let_def is_favorite_iff)
  then have "is_favorite (favorites (addFavorite city s)) again"
    using same by (simp add: is_favorite_iff)
  then show "addFavorite again (addFavorite city s) = addFavorite city s"
    by (simp add: addFavorite_def[of again])
qed

theorem addFavorite_idempotent_witness:
  "addFavorite ''PARIS'' two_favorites =
     two_favorites \<and>
   favorites (addFavorite ''Rome'' two_favorites) = [''Paris'', ''Oslo'', ''Rome''] \<and>
   addFavorite ''rome'' (addFavorite ''Rome'' two_favorites) = addFavorite ''Rome'' two_favorites"
proof -
  have old: "\<exists>c \<in> set (favorites two_favorites). toLowerCase c = toLowerCase ''PARIS''"
    by code_simp
  have new: "\<not> (\<exists>c \<in> set (favorites two_favorites). toLowerCase c = toLowerCase ''Rome'')"
    by code_simp
  have same: "toLowerCase ''rome'' = toLowerCase ''Rome''"
    by code_simp
  have fs: "favorites two_favorites = [''Paris'', ''Oslo'']" by code_simp
  note t1 = addFavorite_idempotent [of two_favorites "''PARIS''" "''rome''"]
  note t2 = addFavorite_idempotent [of two_favorites "''Rome''" "''rome''"]
  from t1 old have a: "addFavorite ''PARIS'' two_favorites = two_favorites" by blast
  from t2 new have b: "favorites (addFavorite ''Rome'' two_favorites) = favorites two_favorites @ [''Rome'']" by blast
  from t2 same have c: "addFavorite ''rome'' (addFavorite ''Rome'' two_favorites) = addFavorite ''Rome'' two_favorites" by blast
  from a b c fs show ?thesis by simp
qed

text \<open>
  Claim C4, as the code has it. Loading returns normally when the key is absent, holds the
  empty string, or holds a text that parses: the favourites stay as they are in the first
  two cases and become the stored list in the third. On a non-empty text that
  \<open>JSON.parse\<close> rejects, \<open>loadFavorites\<close> throws a SyntaxError and the favourites stay as
  they are.
\<close>

theorem loadFavorites_cases:
  "(localStorage s FAVORITES_KEY = None \<or> localStorage s FAVORITES_KEY = Some (Unparsable [])
      \<longrightarrow> loadFavorites s = Returned s) \<and>
   (localStorage s FAVORITES_KEY = Some (Parsable stored)
      \<longrightarrow> loadFavorites s = Returned (s\<lparr>favorites := stored\<rparr>)) \<and>
   (localStorage s FAVORITES_KEY = Some (Unparsable raw) \<and> raw \<noteq> []
      \<longrightarrow> loadFavorites s = Thrown SyntaxError s)"
  by (auto simp: loadFavorites_def JSON_parse_def truthy_def)

theorem loadFavorites_cases_witness:
  "loadFavorites (opened_page Map.empty) = Returned (opened_page Map.empty) \<and>
   loadFavorites (opened_page [FAVORITES_KEY \<mapsto> Parsable [''Paris'']]) =
     Returned ((opened_page [FAVORITES_KEY \<mapsto> Parsable [''Paris'']])\<lparr>favorites := [''Paris'']\<rparr>) \<and>
   loadFavorites (opened_page [FAVORITES_KEY \<mapsto> Unparsable ''oops'']) =
     Thrown SyntaxError (opened_page [FAVORITES_KEY \<mapsto> Unparsable ''oops''])"
proof -
  have absent: "localStorage (opened_page Map.empty) FAVORITES_KEY = None"
    by (simp add: opened_page_def)
  have array: "localStorage (opened_page [FAVORITES_KEY \<mapsto> Parsable [''Paris'']]) FAVORITES_KEY
                 = Some (Parsable [''Paris''])"
    by (simp add: opened_page_def)
  have corrupt: "localStorage (opened_page [FAVORITES_KEY \<mapsto> Unparsable ''oops'']) FAVORITES_KEY
                   = Some (Unparsable ''oops'') \<and> ''oops'' \<noteq> []"
    by (simp add: opened_page_def)
  from loadFavorites_cases [of "opened_page Map.empty" "[]" "[]"] absent
  have a: "loadFavorites (opened_page Map.empty) = Returned (opened_page Map.empty)"
    by blast
  from loadFavorites_cases
         [of "opened_page [FAVORITES_KEY \<mapsto> Parsable [''Paris'']]" "[''Paris'']" "[]"] array
  have b: "loadFavorites (opened_page [FAVORITES_KEY \<mapsto> Parsable [''Paris'']]) =
     Returned ((opened_page [FAVORITES_KEY \<mapsto> Parsable [''Paris'']])\<lparr>favorites := [''Paris'']\<rparr>)"
    by blast
  from loadFavorites_cases
         [of "opened_page [FAVORITES_KEY \<mapsto> Unparsable ''oops'']" "[]" "''oops''"] corrupt
  have c: "loadFavorites (opened_page [FAVORITES_KEY \<mapsto> Unparsable ''oops'']) =
     Thrown SyntaxError (opened_page [FAVORITES_KEY \<mapsto> Unparsable ''oops''])"
    by blast
  from a b c show ?thesis by blast
qed

text \<open>
  The claim as the specification states it fails: on a stored text that does not parse,
  loading throws.
\<close>

theorem loadFavorites_throws_on_corrupt_text:
  "loadFavorites (opened_page [FAVORITES_KEY \<mapsto> Unparsable ''[Paris'']) =
     Thrown SyntaxError (opened_page [FAVORITES_KEY \<mapsto> Unparsable ''[Paris''])"
  by (simp add: loadFavorites_def opened_page_def JSON_parse_def truthy_def)


section \<open>Suggestions\<close>

text \<open>
  Claim C8. A query of fewer than three code units issues no request: the suggestion box
  is emptied and hidden at once and nothing else changes but the button's loading mark.
  A query of three or more issues the request.
\<close>

theorem suggestions_skip_short_queries:
  "(length query < 3 \<longrightarrow>
      fetchCitySuggestions query s =
        s\<lparr>suggestionsBox_hidden := True, suggestionsBox_items := [], searchBtn_loading := False\<rparr> \<and>
      pendingSuggestions (fetchCitySuggestions query s) = pendingSuggestions s) \<and>
   (3 \<le> length query \<longrightarrow>
      pendingSuggestions (fetchCitySuggestions query s) = pendingSuggestions s @ [query])"
  by (simp add: fetchCitySuggestions_def hideSuggestions_def)

theorem suggestions_skip_short_queries_witness:
  "pendingSuggestions (fetchCitySuggestions ''Lo'' (opened_page Map.empty)) = [] \<and>
   suggestionsBox_hidden (fetchCitySuggestions ''Lo'' (opened_page Map.empty)) \<and>
   pendingSuggestions (fetchCitySuggestions ''Lon'' (opened_page Map.empty)) = [''Lon'']"
proof -
  have short: "length ''Lo'' < 3" and long: "3 \<le> length ''Lon''" by simp_all
  have p0: "pendingSuggestions (opened_page Map.empty) = []" by (simp add: opened_page_def)
  from suggestions_skip_short_queries [of "''Lo''" "opened_page Map.empty"] short
  have a: "fetchCitySuggestions ''Lo'' (opened_page Map.empty) =
        (opened_page Map.empty)\<lparr>suggestionsBox_hidden := True, suggestionsBox_items := [], searchBtn_loading := False\<rparr>"
    and b: "pendingSuggestions (fetchCitySuggestions ''Lo'' (opened_page Map.empty)) = pendingSuggestions (opened_page Map.empty)"
    by blast+
  from suggestions_skip_short_queries [of "''Lon''" "opened_page Map.empty"] long
  have c: "pendingSuggestions (fetchCitySuggestions ''Lon'' (opened_page Map.empty)) = pendingSuggestions (opened_page Map.empty) @ [''Lon'']"
    by blast
  from a b c p0 show ?thesis by simp
qed

text \<open>
  Claim C9, as the code has it. Further input replaces only the timer that has not fired
  yet: of two inputs in a row only the second reaches the backend, and a request already
  in flight stays in flight. When the response of such a request arrives with a non-empty
  list, the list is rendered and the box is shown, whatever the field holds by then and
  whichever timer is armed.
\<close>

theorem suggestions_rendered_on_arrival:
  "(i < length (pendingSuggestions s) \<and> suggestions \<noteq> [] \<longrightarrow>
      (let s' = suggestions_response i (Resolved (Parsable suggestions)) (cityInput_input v s)
       in suggestionsBox_items s' = suggestions \<and> \<not> suggestionsBox_hidden s' \<and>
          debounceTimer s' = Some (trim v) \<and> cityInput_value s' = v)) \<and>
   pendingSuggestions (cityInput_input v s) = pendingSuggestions s \<and>
   debounceTimer (cityInput_input v (cityInput_input u s)) = Some (trim v) \<and>
   pendingSuggestions (debounce_timeout (cityInput_input v (cityInput_input u s))) =
     pendingSuggestions s @ (if 3 \<le> length (trim v) then [trim v] else [])"
  by (simp add: suggestions_response_def fetchCitySuggestions_settled_def JSON_parse_def
      displaySuggestions_def cityInput_input_def debounce_timeout_def fetchCitySuggestions_def
      hideSuggestions_def Let_def)

theorem suggestions_rendered_on_arrival_witness:
  "suggestionsBox_items
     (suggestions_response 0 (Resolved (Parsable [''Lonavala, India'', ''London, UK'']))
        (cityInput_input ''Lond'' (run (opened_page Map.empty) [Input ''Lon'', DebounceTimeout]))) =
     [''Lonavala, India'', ''London, UK''] \<and>
   debounceTimer
     (suggestions_response 0 (Resolved (Parsable [''Lonavala, India'', ''London, UK'']))
        (cityInput_input ''Lond'' (run (opened_page Map.empty) [Input ''Lon'', DebounceTimeout]))) =
     Some ''Lond''"
proof -
  have hyp: "0 < length (pendingSuggestions (run (opened_page Map.empty) [Input ''Lon'', DebounceTimeout]))
             \<and> [''Lonavala, India'', ''London, UK''] \<noteq> []"
    by code_simp
  have t: "trim ''Lond'' = ''Lond''" by code_simp
  from suggestions_rendered_on_arrival
         [of 0 "run (opened_page Map.empty) [Input ''Lon'', DebounceTimeout]"
             "[''Lonavala, India'', ''London, UK'']" "''Lond''" "''Lon''"] hyp t
  show ?thesis unfolding Let_def by simp
qed

text \<open>
  The claim as the specification states it fails: the response to the request for
  \<open>Lon\<close> arrives after the user has typed on, and it is rendered.
\<close>

theorem stale_suggestions_are_rendered:
  "pendingSuggestions (run (opened_page Map.empty) typing_on) = [''Lon''] \<and>
   debounceTimer (run (opened_page Map.empty) typing_on) = Some ''Lond'' \<and>
   cityInput_value (run (opened_page Map.empty) typing_on) = ''Lond'' \<and>
   suggestionsBox_items (run (opened_page Map.empty) typing_on) = [] \<and>
   suggestionsBox_items (run (opened_page Map.empty)
     (typing_on @ [SuggestionsResponse 0 (Resolved (Parsable [''Lonavala, India'', ''London, UK'']))])) =
     [''Lonavala, India'', ''London, UK''] \<and>
   \<not> suggestionsBox_hidden (run (opened_page Map.empty)
     (typing_on @ [SuggestionsResponse 0 (Resolved (Parsable [''Lonavala, India'', ''London, UK'']))]))"
  by code_simp


section \<open>Weather requests\<close>

lemma displayCurrentWeather_None:
  "displayCurrentWeather shown today None s =
     Thrown TypeError (s\<lparr>cityNameEl := shown, currentDateEl := today\<rparr>)"
  by (simp add: displayCurrentWeather_def)

lemma displayCurrentWeather_Some:
  "displayCurrentWeather shown today (Some c) s =
     Returned (s\<lparr>cityNameEl := shown, currentDateEl := today,
                 weatherIconEl := Some (icon (getWeatherIcon (description c))),
                 weatherIconEl_classes :=
                   (if animationClass (getWeatherIcon (description c)) \<noteq> []
                    then classList_add (animationClass (getWeatherIcon (description c)))
                           (classList_remove ANIMATION_CLASSES (weatherIconEl_classes s))
                    else classList_remove ANIMATION_CLASSES (weatherIconEl_classes s)),
                 weatherCard_classes :=
                   classList_add (backgroundClass (getWeatherIcon (description c)))
                     (classList_remove BACKGROUND_CLASSES (weatherCard_classes s)),
                 currentTempEl := Some (Math_round (temp c)),
                 weatherDescriptionEl := description c,
                 humidityEl := Some (humidity c),
                 windSpeedEl := Some (wind_speed c),
                 weatherAlertsEl := weatherAlertsEl (displayWeatherAlerts c s)\<rparr>)"
  by (simp add: displayCurrentWeather_def displayWeatherAlerts_eq Let_def)

lemma displayForecast_None:
  "displayForecast None s = Thrown TypeError (s\<lparr>forecastCards := []\<rparr>)"
  by (simp add: displayForecast_def)

lemma displayForecast_Some:
  "displayForecast (Some days) s = Returned (s\<lparr>forecastCards := map forecastCard (take 5 days)\<rparr>)"
  by (simp add: displayForecast_def)

lemma showContent_eq:
  "showContent s =
     s\<lparr>loader_hidden := True, errorMessageEl_hidden := True,
       favoritesSection_hidden := (favorites s = [] \<and> favoritesSection_hidden s),
       currentWeatherSection_hidden := False, forecastSection_hidden := False\<rparr>"
  by (simp add: showContent_def Let_def)

lemmas settle_eqs =
  fetchWeather_settled_def fetchWeather_try_def JSON_parse_def displayCity_eq
  displayCurrentWeather_None displayCurrentWeather_Some displayForecast_None
  displayForecast_Some showContent_eq showError_def updateFavoriteButton_def Let_def

lemma weather_reply_cases [case_names Rejected Unparsable Null NoCurrent NoForecast Report]:
  fixes r :: "weather_json reply"
  obtains "r = Rejected"
  | raw where "r = Resolved (Unparsable raw)"
  | "r = Resolved (Parsable JsonNull)"
  | f where "r = Resolved (Parsable (JsonObject None f))"
  | c where "r = Resolved (Parsable (JsonObject (Some c) None))"
  | c f where "r = Resolved (Parsable (JsonObject (Some c) (Some f)))"
proof (cases r)
  case Rejected
  then show ?thesis using that by blast
next
  case (Resolved t)
  show ?thesis
  proof (cases t)
    case (Unparsable raw)
    with Resolved show ?thesis using that by blast
  next
    case (Parsable w)
    show ?thesis
    proof (cases w)
      case JsonNull
      with Resolved Parsable show ?thesis using that by blast
    next
      case (JsonObject co fo)
      with Resolved Parsable show ?thesis using that by (cases co; cases fo) blast+
    qed
  qed
qed

lemma pending_fetchWeather:
  "pendingWeather (fetchWeather city a s) = pendingWeather s @ [(city, a)]"
  by (simp add: fetchWeather_def showLoading_def hideSuggestions_def Let_def)

lemma pending_settled:
  "pendingWeather (fetchWeather_settled city a r today s) = pendingWeather s"
  by (cases r rule: weather_reply_cases; cases a) (simp_all add: settle_eqs)

lemma weather_response_at:
  assumes "pendingWeather s = xs @ (city, a) # ys" and "i = length xs"
  shows "weather_response i r today s =
           fetchWeather_settled city a r today (s\<lparr>pendingWeather := xs @ ys\<rparr>)"
  using assms by (simp add: weather_response_def nth_append)

lemma pending_refresh_interval:
  "currentCity s \<noteq> [] \<Longrightarrow>
     pendingWeather (refresh_interval s) = pendingWeather s @ [(currentCity s, True)]"
  by (simp add: refresh_interval_def fetchWeather_def)

lemma settled_report_explicit:
  fixes c f city today s
  defines "s' \<equiv> fetchWeather_settled city False (Resolved (Parsable (JsonObject (Some c) (Some f)))) today s"
  shows "currentCity s' = city"
    and "cityNameEl s' = trim (takeWhile (\<lambda>x. x \<noteq> CHR '','') city)"
    and "currentTempEl s' = Some (Math_round (temp c))"
    and "weatherDescriptionEl s' = description c"
    and "humidityEl s' = Some (humidity c)"
    and "windSpeedEl s' = Some (wind_speed c)"
    and "forecastCards s' = map forecastCard (take 5 f)"
    and "loader_hidden s'" and "errorMessageEl_hidden s'"
    and "\<not> currentWeatherSection_hidden s'" and "\<not> forecastSection_hidden s'"
  unfolding s'_def by (simp_all add: settle_eqs)

lemma settled_report_auto:
  "fetchWeather_settled city True (Resolved (Parsable (JsonObject (Some c) (Some f)))) today s =
     s\<lparr>currentCity := city,
       addFavoriteBtn_filled := (\<exists>e \<in> set (favorites s). toLowerCase e = toLowerCase city),
       cityNameEl := trim (takeWhile (\<lambda>x. x \<noteq> CHR '','') city),
       currentDateEl := today,
       weatherIconEl := Some (icon (getWeatherIcon (description c))),
       weatherIconEl_classes :=
         (if animationClass (getWeatherIcon (description c)) \<noteq> []
          then classList_add (animationClass (getWeatherIcon (description c)))
                 (classList_remove ANIMATION_CLASSES (weatherIconEl_classes s))
          else classList_remove ANIMATION_CLASSES (weatherIconEl_classes s)),
       weatherCard_classes :=
         classList_add (backgroundClass (getWeatherIcon (description c)))
           (classList_remove BACKGROUND_CLASSES (weatherCard_classes s)),
       currentTempEl := Some (Math_round (temp c)),
       weatherDescriptionEl := description c,
       humidityEl := Some (humidity c),
       windSpeedEl := Some (wind_speed c),
       weatherAlertsEl := weatherAlertsEl (displayWeatherAlerts c s),
       forecastCards := map forecastCard (take 5 f)\<rparr>"
  by (simp add: settle_eqs is_favorite_iff displayWeatherAlerts_eq split del: if_split cong: if_cong)

lemma settled_auto_failed:
  assumes "response = Rejected \<or> (\<exists>raw. response = Resolved (Unparsable raw))"
  shows "fetchWeather_settled city True response today s = s"
  using assms by (auto simp: fetchWeather_settled_def fetchWeather_try_def JSON_parse_def)

lemma settled_auto_phase:
  "phase_flags (fetchWeather_settled city True response today s) = phase_flags s"
  "controls (fetchWeather_settled city True response today s) = controls s"
  "suggestionsBox_hidden (fetchWeather_settled city True response today s) = suggestionsBox_hidden s"
  "suggestionsBox_items (fetchWeather_settled city True response today s) = suggestionsBox_items s"
  by (cases response rule: weather_reply_cases;
      simp add: settle_eqs phase_flags_def controls_def split del: if_split cong: if_cong)+

lemma fetchWeather_auto:
  "fetchWeather city True s = s\<lparr>pendingWeather := pendingWeather s @ [(city, True)]\<rparr>"
  by (simp add: fetchWeather_def)

text \<open>
  Claim C1, as the code has it. Search A is issued, then search B while A is in flight;
  B's response settles first, in any way, and A's settles after it with a report. Then the
  page shows A's report in the content phase and \<open>currentCity\<close> is A: the response that
  settles last is applied, whichever search was issued last.
\<close>

theorem last_completed_search_wins:
  "(let n = length (pendingWeather s);
        s2 = fetchWeather B False (fetchWeather A False s);
        s3 = weather_response (Suc n) responseB t1 s2;
        s4 = weather_response n (Resolved (Parsable (JsonObject (Some c) (Some f)))) t2 s3
    in currentCity s4 = A \<and>
       cityNameEl s4 = trim (takeWhile (\<lambda>x. x \<noteq> CHR '','') A) \<and>
       currentTempEl s4 = Some (Math_round (temp c)) \<and>
       weatherDescriptionEl s4 = description c \<and>
       humidityEl s4 = Some (humidity c) \<and>
       windSpeedEl s4 = Some (wind_speed c) \<and>
       forecastCards s4 = map forecastCard (take 5 f) \<and>
       loader_hidden s4 \<and> errorMessageEl_hidden s4 \<and>
       \<not> currentWeatherSection_hidden s4 \<and> \<not> forecastSection_hidden s4)"
proof -
  define n where "n = length (pendingWeather s)"
  define s2 where "s2 = fetchWeather B False (fetchWeather A False s)"
  define s2' where "s2' = s2\<lparr>pendingWeather := (pendingWeather s @ [(A, False)]) @ []\<rparr>"
  define s3 where "s3 = weather_response (Suc n) responseB t1 s2"
  define s3' where "s3' = s3\<lparr>pendingWeather := pendingWeather s @ []\<rparr>"
  have p2: "pendingWeather s2 = (pendingWeather s @ [(A, False)]) @ (B, False) # []"
    by (simp add: s2_def pending_fetchWeather)
  have "s3 = fetchWeather_settled B False responseB t1 s2'"
    unfolding s3_def s2'_def by (rule weather_response_at [OF p2]) (simp add: n_def)
  then have p3: "pendingWeather s3 = pendingWeather s @ (A, False) # []"
    by (simp add: pending_settled s2'_def)
  have s4: "weather_response n (Resolved (Parsable (JsonObject (Some c) (Some f)))) t2 s3 =
        fetchWeather_settled A False (Resolved (Parsable (JsonObject (Some c) (Some f)))) t2 s3'"
    unfolding s3'_def by (rule weather_response_at [OF p3]) (simp add: n_def)
  show ?thesis
    unfolding Let_def n_def [symmetric] s2_def [symmetric] s3_def [symmetric] s4
    by (simp only: settled_report_explicit simp_thms)
qed

theorem last_completed_search_wins_witness:
  "currentCity
     (weather_response 0 (Resolved (Parsable (JsonObject (Some tokyo_current) (Some tokyo_forecast))))
        ''Monday''
        (weather_response (Suc 0) (report paris_current paris_forecast) ''Monday''
           (fetchWeather ''Paris, France'' False
              (fetchWeather ''Tokyo'' False (opened_page Map.empty))))) = ''Tokyo''"
proof -
  have n: "length (pendingWeather (opened_page Map.empty)) = 0"
    by (simp add: opened_page_def)
  from last_completed_search_wins
         [of "opened_page Map.empty" "''Paris, France''" "''Tokyo''"
             "report paris_current paris_forecast" "''Monday''" tokyo_current tokyo_forecast
             "''Monday''"]
  show ?thesis unfolding Let_def n by blast
qed

text \<open>
  The claim as the specification states it fails: Paris is searched while the search for
  Tokyo is in flight, the response for Paris settles first, and the page ends on Tokyo.
\<close>

theorem stale_search_overwrites_newer:
  "pendingWeather (run (opened_page Map.empty) tokyo_then_paris) =
     [(''Tokyo'', False), (''Paris, France'', False)] \<and>
   currentCity (run (opened_page Map.empty)
     (tokyo_then_paris @
        [WeatherResponse 1 (report paris_current paris_forecast) ''Monday, November 2, 2026''])) =
     ''Paris, France'' \<and>
   currentCity (run (opened_page Map.empty)
     (tokyo_then_paris @
        [WeatherResponse 1 (report paris_current paris_forecast) ''Monday, November 2, 2026'',
         WeatherResponse 0 (report tokyo_current tokyo_forecast) ''Monday, November 2, 2026''])) =
     ''Tokyo'' \<and>
   cityNameEl (run (opened_page Map.empty)
     (tokyo_then_paris @
        [WeatherResponse 1 (report paris_current paris_forecast) ''Monday, November 2, 2026'',
         WeatherResponse 0 (report tokyo_current tokyo_forecast) ''Monday, November 2, 2026''])) =
     ''Tokyo'' \<and>
   currentTempEl (run (opened_page Map.empty)
     (tokyo_then_paris @
        [WeatherResponse 1 (report paris_current paris_forecast) ''Monday, November 2, 2026'',
         WeatherResponse 0 (report tokyo_current tokyo_forecast) ''Monday, November 2, 2026''])) =
     Some 31"
  by code_simp

text \<open>
  Claim C2, as the code has it. The refresh timer fires while \<open>currentCity\<close> is A; an
  explicit search for B is issued and its report arrives, so that \<open>currentCity\<close> is B;
  then the report of the refresh arrives. It is applied: \<open>currentCity\<close> is A again and
  the page shows A's report, in the phase it was in.
\<close>

theorem stale_refresh_is_applied:
  "currentCity s = A \<and> A \<noteq> [] \<longrightarrow>
   (let n = length (pendingWeather s);
        s2 = fetchWeather B False (refresh_interval s);
        s3 = weather_response (Suc n) (Resolved (Parsable (JsonObject (Some cb) (Some fb)))) t1 s2;
        s4 = weather_response n (Resolved (Parsable (JsonObject (Some ca) (Some fa)))) t2 s3
    in pendingWeather s2 = pendingWeather s @ [(A, True), (B, False)] \<and>
       currentCity s3 = B \<and>
       currentCity s4 = A \<and>
       cityNameEl s4 = trim (takeWhile (\<lambda>x. x \<noteq> CHR '','') A) \<and>
       currentTempEl s4 = Some (Math_round (temp ca)) \<and>
       weatherDescriptionEl s4 = description ca \<and>
       humidityEl s4 = Some (humidity ca) \<and>
       windSpeedEl s4 = Some (wind_speed ca) \<and>
       forecastCards s4 = map forecastCard (take 5 fa) \<and>
       phase_flags s4 = phase_flags s3)"
proof
  assume "currentCity s = A \<and> A \<noteq> []"
  then have A: "currentCity s = A" "currentCity s \<noteq> []" by simp_all
  define n where "n = length (pendingWeather s)"
  define s2 where "s2 = fetchWeather B False (refresh_interval s)"
  define s2' where "s2' = s2\<lparr>pendingWeather := (pendingWeather s @ [(A, True)]) @ []\<rparr>"
  define s3 where
    "s3 = weather_response (Suc n) (Resolved (Parsable (JsonObject (Some cb) (Some fb)))) t1 s2"
  define s3' where "s3' = s3\<lparr>pendingWeather := pendingWeather s @ []\<rparr>"
  define s4 where
    "s4 = weather_response n (Resolved (Parsable (JsonObject (Some ca) (Some fa)))) t2 s3"
  have p2: "pendingWeather s2 = (pendingWeather s @ [(A, True)]) @ (B, False) # []"
    using A by (simp add: s2_def pending_fetchWeather pending_refresh_interval)
  have e3: "s3 = fetchWeather_settled B False
                   (Resolved (Parsable (JsonObject (Some cb) (Some fb)))) t1 s2'"
    unfolding s3_def s2'_def by (rule weather_response_at [OF p2]) (simp add: n_def)
  then have p3: "pendingWeather s3 = pendingWeather s @ (A, True) # []"
    by (simp add: pending_settled s2'_def)
  have e4: "s4 = fetchWeather_settled A True
                   (Resolved (Parsable (JsonObject (Some ca) (Some fa)))) t2 s3'"
    unfolding s4_def s3'_def by (rule weather_response_at [OF p3]) (simp add: n_def)
  have c3: "currentCity s3 = B"
    unfolding e3 by (rule settled_report_explicit)
  have ph: "phase_flags s4 = phase_flags s3"
    unfolding e4 by (simp add: settled_auto_phase) (simp add: s3'_def phase_flags_def)
  have shown: "currentCity s4 = A"
      "cityNameEl s4 = trim (takeWhile (\<lambda>x. x \<noteq> CHR '','') A)"
      "currentTempEl s4 = Some (Math_round (temp ca))"
      "weatherDescriptionEl s4 = description ca"
      "humidityEl s4 = Some (humidity ca)"
      "windSpeedEl s4 = Some (wind_speed ca)"
      "forecastCards s4 = map forecastCard (take 5 fa)"
    unfolding e4 settled_report_auto by simp_all
  from p2 c3 ph shown
  show "let n = length (pendingWeather s);
        s2 = fetchWeather B False (refresh_interval s);
        s3 = weather_response (Suc n) (Resolved (Parsable (JsonObject (Some cb) (Some fb)))) t1 s2;
        s4 = weather_response n (Resolved (Parsable (JsonObject (Some ca) (Some fa)))) t2 s3
    in pendingWeather s2 = pendingWeather s @ [(A, True), (B, False)] \<and>
       currentCity s3 = B \<and>
       currentCity s4 = A \<and>
       cityNameEl s4 = trim (takeWhile (\<lambda>x. x \<noteq> CHR '','') A) \<and>
       currentTempEl s4 = Some (Math_round (temp ca)) \<and>
       weatherDescriptionEl s4 = description ca \<and>
       humidityEl s4 = Some (humidity ca) \<and>
       windSpeedEl s4 = Some (wind_speed ca) \<and>
       forecastCards s4 = map forecastCard (take 5 fa) \<and>
       phase_flags s4 = phase_flags s3"
    unfolding Let_def n_def [symmetric] s2_def [symmetric] s3_def [symmetric] s4_def [symmetric]
    by simp
qed

theorem stale_refresh_is_applied_witness:
  "currentCity
     (weather_response 0 (Resolved (Parsable (JsonObject (Some london_current) (Some london_forecast))))
        ''Monday''
        (weather_response (Suc 0)
           (Resolved (Parsable (JsonObject (Some paris_current) (Some paris_forecast)))) ''Monday''
           (fetchWeather ''Paris, France'' False (refresh_interval london_favorite)))) = ''London'' \<and>
   currentCity
     (weather_response (Suc 0)
        (Resolved (Parsable (JsonObject (Some paris_current) (Some paris_forecast)))) ''Monday''
        (fetchWeather ''Paris, France'' False (refresh_interval london_favorite))) = ''Paris, France''"
proof -
  have hyp: "currentCity london_favorite = ''London'' \<and> ''London'' \<noteq> []"
    by code_simp
  have n: "length (pendingWeather london_favorite) = 0"
    by code_simp
  from stale_refresh_is_applied
         [of london_favorite "''London''" "''Paris, France''" paris_current paris_forecast
             "''Monday''" london_current london_forecast "''Monday''"] hyp
  show ?thesis unfolding Let_def n by blast
qed

text \<open>
  The claim as the specification states it fails: the refresh for London is in flight
  when Paris is selected and shown, and its late response puts London back.
\<close>

theorem stale_refresh_overwrites_new_city:
  "pendingWeather (run (opened_page Map.empty) refresh_then_paris) = [(''London'', True)] \<and>
   currentCity (run (opened_page Map.empty) refresh_then_paris) = ''Paris, France'' \<and>
   cityNameEl (run (opened_page Map.empty) refresh_then_paris) = ''Paris'' \<and>
   currentTempEl (run (opened_page Map.empty) refresh_then_paris) = Some 18 \<and>
   currentCity (run (opened_page Map.empty)
     (refresh_then_paris @
        [WeatherResponse 0 (report london_current london_forecast) ''Sunday, November 1, 2026''])) =
     ''London'' \<and>
   cityNameEl (run (opened_page Map.empty)
     (refresh_then_paris @
        [WeatherResponse 0 (report london_current london_forecast) ''Sunday, November 1, 2026''])) =
     ''London'' \<and>
   currentTempEl (run (opened_page Map.empty)
     (refresh_then_paris @
        [WeatherResponse 0 (report london_current london_forecast) ''Sunday, November 1, 2026''])) =
     Some 14"
  by code_simp

text \<open>
  Claim C3, as the code has it. A call in auto-refresh mode only records the request.
  Its continuation never touches the UI phase, the search button or the suggestion box,
  whatever the response. On a rejected call or a text that does not parse, it changes
  nothing at all. On a report it sets \<open>currentCity\<close> to the requested city, recomputes
  the favourite star for it and replaces the displayed current weather and forecast;
  nothing else changes.
\<close>

theorem auto_refresh_is_silent:
  "(let s' = fetchWeather_settled city True response today s in
      phase_flags s' = phase_flags s \<and> controls s' = controls s \<and>
      suggestionsBox_hidden s' = suggestionsBox_hidden s \<and>
      suggestionsBox_items s' = suggestionsBox_items s \<and>
      (response = Rejected \<or> (\<exists>raw. response = Resolved (Unparsable raw)) \<longrightarrow> s' = s) \<and>
      (\<forall>c f. response = Resolved (Parsable (JsonObject (Some c) (Some f))) \<longrightarrow>
         s' = s\<lparr>currentCity := city,
                 addFavoriteBtn_filled :=
                   (\<exists>e \<in> set (favorites s). toLowerCase e = toLowerCase city),
                 cityNameEl := trim (takeWhile (\<lambda>x. x \<noteq> CHR '','') city),
                 currentDateEl := today,
                 weatherIconEl := Some (icon (getWeatherIcon (description c))),
                 weatherIconEl_classes :=
                   (if animationClass (getWeatherIcon (description c)) \<noteq> []
                    then classList_add (animationClass (getWeatherIcon (description c)))
                           (classList_remove ANIMATION_CLASSES (weatherIconEl_classes s))
                    else classList_remove ANIMATION_CLASSES (weatherIconEl_classes s)),
                 weatherCard_classes :=
                   classList_add (backgroundClass (getWeatherIcon (description c)))
                     (classList_remove BACKGROUND_CLASSES (weatherCard_classes s)),
                 currentTempEl := Some (Math_round (temp c)),
                 weatherDescriptionEl := description c,
                 humidityEl := Some (humidity c),
                 windSpeedEl := Some (wind_speed c),
                 weatherAlertsEl := weatherAlertsEl (displayWeatherAlerts c s),
                 forecastCards := map forecastCard (take 5 f)\<rparr>)) \<and>
   fetchWeather city True s = s\<lparr>pendingWeather := pendingWeather s @ [(city, True)]\<rparr>"
  unfolding Let_def
  using settled_auto_failed [of response city today s]
  by (simp only: settled_auto_phase fetchWeather_auto simp_thms) (blast intro: settled_report_auto)

theorem auto_refresh_is_silent_witness:
  "fetchWeather_settled ''London'' True Rejected ''Monday'' london_favorite = london_favorite \<and>
   currentTempEl (fetchWeather_settled ''London'' True
      (Resolved (Parsable (JsonObject (Some london_current) (Some london_forecast))))
      ''Monday'' london_favorite) = Some 14 \<and>
   phase_flags (fetchWeather_settled ''London'' True
      (Resolved (Parsable (JsonObject (Some london_current) (Some london_forecast))))
      ''Monday'' london_favorite) = phase_flags london_favorite"
proof -
  have r: "Math_round (temp london_current) = 14"
    by code_simp
  note failed = auto_refresh_is_silent [of "''London''" Rejected "''Monday''" london_favorite]
  note ok = auto_refresh_is_silent
      [of "''London''" "Resolved (Parsable (JsonObject (Some london_current) (Some london_forecast)))"
          "''Monday''" london_favorite]
  from failed have a: "fetchWeather_settled ''London'' True Rejected ''Monday'' london_favorite = london_favorite"
    unfolding Let_def by simp
  from ok have b: "phase_flags (fetchWeather_settled ''London'' True
      (Resolved (Parsable (JsonObject (Some london_current) (Some london_forecast))))
      ''Monday'' london_favorite) = phase_flags london_favorite"
    unfolding Let_def by blast
  from ok have "currentTempEl (fetchWeather_settled ''London'' True
      (Resolved (Parsable (JsonObject (Some london_current) (Some london_forecast))))
      ''Monday'' london_favorite) = Some (Math_round (temp london_current))"
    unfolding Let_def by (simp split del: if_split)
  with a b r show ?thesis by simp
qed

text \<open>
  The claim as the specification states it fails: a refresh that succeeds writes more
  than the displayed weather. Here it moves \<open>currentCity\<close> from Paris back to London
  and fills the favourite star.
\<close>

theorem refresh_success_writes_city_and_star:
  "pendingWeather (run (opened_page stored_london) refresh_then_paris) = [(''London'', True)] \<and>
   currentCity (run (opened_page stored_london) refresh_then_paris) = ''Paris, France'' \<and>
   \<not> addFavoriteBtn_filled (run (opened_page stored_london) refresh_then_paris) \<and>
   currentCity (run (opened_page stored_london)
     (refresh_then_paris @
        [WeatherResponse 0 (report london_current london_forecast) ''Sunday, November 1, 2026''])) =
     ''London'' \<and>
   addFavoriteBtn_filled (run (opened_page stored_london)
     (refresh_then_paris @
        [WeatherResponse 0 (report london_current london_forecast) ''Sunday, November 1, 2026'']))"
  by code_simp

lemma currentCity_kept_without_parsed_value:
  assumes "response = Rejected \<or> response = Resolved (Unparsable raw)"
  shows "currentCity (fetchWeather_settled city isAutoRefresh response today s) = currentCity s"
  using assms by (cases isAutoRefresh) (auto simp: settle_eqs)

lemma currentCity_set_before_rendering:
  "currentCity (fetchWeather_settled city isAutoRefresh (Resolved (Parsable w)) today s) = city"
  by (cases "Resolved (Parsable w)" rule: weather_reply_cases; cases isAutoRefresh)
     (simp_all add: settle_eqs)

text \<open>
  Claim C5 fails on the code. With London shown, a search for Atlantis is answered by a
  text that parses to an object without \<open>current\<close>: rendering throws, the error message
  is shown, and \<open>currentCity\<close> is Atlantis all the same, because it is assigned before
  the rendering starts.
\<close>

theorem failed_fetch_changes_currentCity:
  "currentCity (run (opened_page Map.empty) atlantis_search) = ''London'' \<and>
   pendingWeather (run (opened_page Map.empty) atlantis_search) = [(''Atlantis'', False)] \<and>
   currentCity (run (opened_page Map.empty)
     (atlantis_search @
        [WeatherResponse 0 (Resolved (Parsable (JsonObject None None))) ''Sunday, November 1, 2026''])) =
     ''Atlantis'' \<and>
   \<not> errorMessageEl_hidden (run (opened_page Map.empty)
     (atlantis_search @
        [WeatherResponse 0 (Resolved (Parsable (JsonObject None None))) ''Sunday, November 1, 2026''])) \<and>
   errorMessageEl_text (run (opened_page Map.empty)
     (atlantis_search @
        [WeatherResponse 0 (Resolved (Parsable (JsonObject None None))) ''Sunday, November 1, 2026''])) =
     ''Could not retrieve weather data. Please try another city.''"
  by code_simp

text \<open>
  Claim C10. After a fetch that succeeds, the name shown is the part of the query before
  its first comma, trimmed, while \<open>currentCity\<close> is the whole query; the favourite star
  compares the whole query with the favourites, and the favourite button adds the whole
  query.
\<close>

theorem shown_name_is_cut_at_comma:
  "(let s' = fetchWeather_settled city isAutoRefresh
               (Resolved (Parsable (JsonObject (Some c) (Some f)))) today s
    in cityNameEl s' = trim (takeWhile (\<lambda>x. x \<noteq> CHR '','') city) \<and>
       currentCity s' = city \<and>
       (addFavoriteBtn_filled s' \<longleftrightarrow> (\<exists>e \<in> set (favorites s). toLowerCase e = toLowerCase city)) \<and>
       (\<not> addFavoriteBtn_filled s' \<longrightarrow>
          favorites (addFavoriteBtn_click confirmed s') = favorites s @ [city]))"
proof -
  define s' where "s' = fetchWeather_settled city isAutoRefresh
               (Resolved (Parsable (JsonObject (Some c) (Some f)))) today s"
  have name: "cityNameEl s' = trim (takeWhile (\<lambda>x. x \<noteq> CHR '','') city)"
    unfolding s'_def by (cases isAutoRefresh) (simp_all add: settle_eqs)
  have cur: "currentCity s' = city"
    unfolding s'_def by (cases isAutoRefresh) (simp_all add: settle_eqs)
  have favs: "favorites s' = favorites s"
    unfolding s'_def by (cases isAutoRefresh) (simp_all add: settle_eqs)
  have star: "addFavoriteBtn_filled s' = is_favorite (favorites s) city"
    unfolding s'_def by (cases isAutoRefresh) (simp_all add: settle_eqs)
  have add: "\<not> is_favorite (favorites s) city \<Longrightarrow>
      favorites (addFavoriteBtn_click confirmed s') = favorites s @ [city]"
    by (simp add: addFavoriteBtn_click_def cur favs addFavorite_def updateFavoriteButton_def
        renderFavorites_def saveFavorites_def Let_def)
  show ?thesis
    unfolding Let_def s'_def [symmetric]
    using name cur star add by (simp add: is_favorite_iff)
qed

theorem shown_name_is_cut_at_comma_witness:
  "cityNameEl (fetchWeather_settled ''London, UK'' False
       (Resolved (Parsable (JsonObject (Some london_current) (Some london_forecast))))
       ''Monday'' london_favorite) = ''London'' \<and>
   currentCity (fetchWeather_settled ''London, UK'' False
       (Resolved (Parsable (JsonObject (Some london_current) (Some london_forecast))))
       ''Monday'' london_favorite) = ''London, UK'' \<and>
   \<not> addFavoriteBtn_filled (fetchWeather_settled ''London, UK'' False
       (Resolved (Parsable (JsonObject (Some london_current) (Some london_forecast))))
       ''Monday'' london_favorite) \<and>
   favorites (addFavoriteBtn_click True (fetchWeather_settled ''London, UK'' False
       (Resolved (Parsable (JsonObject (Some london_current) (Some london_forecast))))
       ''Monday'' london_favorite)) = [''London'', ''London, UK'']"
proof -
  have cut: "trim (takeWhile (\<lambda>x. x \<noteq> CHR '','') ''London, UK'') = ''London''"
    by code_simp
  have nofav: "\<not> (\<exists>e \<in> set (favorites london_favorite). toLowerCase e = toLowerCase ''London, UK'')"
    by code_simp
  have favs: "favorites london_favorite = [''London'']"
    by code_simp
  from shown_name_is_cut_at_comma
         [of "''London, UK''" False london_current london_forecast "''Monday''" london_favorite True]
       cut nofav favs
  show ?thesis unfolding Let_def by simp
qed

end
